theory Spec2Isabelle
  imports Complex_Main "HOL-Library.AList"
begin

section \<open>Values shared by the model\<close>

text \<open>
  A JavaScript exception value: only \<open>name\<close> and \<open>message\<close> are ever read by the
  code. \<open>new Error(m)\<close> has the name \<open>Error\<close>.
\<close>

record js_error =
  name :: string
  message :: string

definition Error :: "string \<Rightarrow> js_error" where
  "Error m = \<lparr>name = ''Error'', message = m\<rparr>"

text \<open>How a call completes: it returns a value or it throws.\<close>

datatype 'a outcome = Return 'a | Throw js_error

text \<open>How a promise of the host settles.\<close>

datatype 'a settled = Resolves 'a | Rejects js_error

text \<open>
  \<open>String.prototype.includes\<close>: the needle occurs as a contiguous run. Strings are
  lists of bytes here (UTF-8); the needles the code searches for are ASCII, and no byte
  of a multi-byte UTF-8 sequence is an ASCII byte, so the test agrees with the one on
  UTF-16 code units.
\<close>

fun includes_str :: "string \<Rightarrow> string \<Rightarrow> bool" where
  "includes_str [] n = (n = [])"
| "includes_str (c # cs) n = (take (length n) (c # cs) = n \<or> includes_str cs n)"

text \<open>The decimal digits of a number, as the template literal prints it.\<close>

fun show_nat :: "nat \<Rightarrow> string" where
  "show_nat n =
     (if n < 10 then [char_of (48 + n)]
      else show_nat (n div 10) @ [char_of (48 + n mod 10)])"

text \<open>The accented letters of the Portuguese messages, as UTF-8 bytes.\<close>

definition a_acute :: string where "a_acute = [CHR 0xC3, CHR 0xA1]"
definition a_tilde :: string where "a_tilde = [CHR 0xC3, CHR 0xA3]"
definition c_cedil :: string where "c_cedil = [CHR 0xC3, CHR 0xA7]"
definition e_acute :: string where "e_acute = [CHR 0xC3, CHR 0xA9]"
definition i_acute :: string where "i_acute = [CHR 0xC3, CHR 0xAD]"

definition msg_session_unavailable :: string where
  "msg_session_unavailable =
     ''Sess'' @ a_tilde @ ''o da IA n'' @ a_tilde @ ''o dispon'' @ i_acute @ ''vel''"

definition msg_already_processing :: string where
  "msg_already_processing =
     ''J'' @ a_acute @ '' processando outra requisi'' @ c_cedil @ a_tilde @ ''o''"

definition msg_stopped_by_user :: string where
  "msg_stopped_by_user = ''Parado pelo usu'' @ a_acute @ ''rio''"

definition msg_chrome_required :: "nat \<Rightarrow> string" where
  "msg_chrome_required v =
     ''Chrome 127+ '' @ e_acute @ '' necess'' @ a_acute @ ''rio (atual: '' @ show_nat v @ '')''"

definition msg_no_api :: string where
  "msg_no_api =
     ''A API LanguageModel n'' @ a_tilde @ ''o est'' @ a_acute @ '' dispon'' @ i_acute @
     ''vel. Habilite as flags experimental-prompt-api-for-gemini-nano e '' @
     ''optimization-guide-on-device-model.''"

definition msg_downloading :: string where
  "msg_downloading = ''O modelo est'' @ a_acute @ '' sendo baixado...''"

definition msg_downloadable :: string where
  "msg_downloadable = ''O modelo precisa ser baixado.''"

definition msg_not_available :: "string \<Rightarrow> string" where
  "msg_not_available a =
     ''Gemini Nano n'' @ a_tilde @ ''o dispon'' @ i_acute @ ''vel: '' @ a"

definition msg_checking :: string where
  "msg_checking = ''Verificando disponibilidade...''"

definition msg_creating :: string where
  "msg_creating = ''Criando sess'' @ a_tilde @ ''o da IA...''"

definition msg_ready :: string where
  "msg_ready = ''IA pronta''"

section \<open>The host: capability surface, sessions, and what the consumer observes\<close>

text \<open>
  A session object of the host. \<open>prompt\<close> always exists; \<open>promptStreaming\<close> and
  \<open>destroy\<close> are optional methods, which the code tests for before use.
\<close>

record session_handle =
  sid :: nat
  has_promptStreaming :: bool
  has_destroy :: bool

text \<open>
  The language-model interface (\<open>window.ai.languageModel\<close> or the global
  \<open>LanguageModel\<close>). A capability query that exists is given with the way its promise
  settles: \<open>capabilities()\<close> with the value of \<open>caps.available\<close>, \<open>availability()\<close>
  with the string it resolves to.
\<close>

record ai_interface =
  capabilities :: "string settled option"
  availability :: "string settled option"

type_synonym metadata = "(string \<times> string) list"

text \<open>The arguments the four callback slots are called with.\<close>

datatype notification =
    StreamingUpdate string bool string metadata string
  | ProcessingComplete string string metadata string
  | ErrorNotice string
  | StatusChange string

record session_parameters =
  temperature :: rat
  topK :: nat

record create_options =
  parameters :: session_parameters
  expectedOutputs :: bool
  initialPrompts :: "string list option"

datatype accessor = Namespaced | Global

text \<open>Calls made on the host, in the order they are made.\<close>

datatype host_call =
    CallCapabilities
  | CallAvailability
  | CallCreate accessor create_options
  | CallDestroy nat
  | CallPromptStreaming nat string nat
  | CallPrompt nat string nat
  | CallAbort nat

text \<open>
  What arrives while the \<open>for await\<close> loop is suspended: a chunk of the stream, or the
  consumer calling \<open>stopProcessing()\<close>. Then the stream ends or throws.
\<close>

datatype stream_event = Chunk string | StopRequested

datatype stream_end = StreamEnds | StreamThrows js_error

record stream_behaviour =
  arrivals :: "stream_event list"
  ending :: stream_end

text \<open>Entries into the methods of the object that the retry path calls (a ghost log).\<close>

datatype invocation =
    Enter_createSession
  | Enter_processText string string metadata

text \<open>
  The host and everything else outside the object. The answers of the host to
  \<open>create\<close>, \<open>promptStreaming\<close> and \<open>prompt\<close> are scripted: the n-th call gets the
  n-th entry; a call beyond the script never settles. \<open>calls\<close> logs the host calls,
  \<open>notifications\<close> what the callbacks were called with, \<open>destroyed\<close> the sessions whose
  \<open>destroy()\<close> was called, \<open>aborted_signals\<close> the abort controllers that were signalled.

  A call of an asynchronous method is modelled from its entry to its return. The one
  thing that may happen in between is the consumer calling \<open>stopProcessing()\<close> while
  the stream loop is suspended, which is part of the arrivals of a stream; two calls of
  asynchronous methods that overlap in time are outside the model. The clock readings
  (\<open>performance.now()\<close>) and the console output are left out.
\<close>

record host =
  userAgent :: string
  window_ai_languageModel :: "ai_interface option"
  LanguageModel :: "ai_interface option"
  create_script :: "session_handle settled list"
  stream_script :: "stream_behaviour list"
  prompt_script :: "string settled list"
  next_controller :: nat
  calls :: "host_call list"
  notifications :: "notification list"
  invocations :: "invocation list"
  destroyed :: "nat list"
  aborted_signals :: "nat list"

section \<open>The LocalAICore object\<close>

text \<open>
  The fields of the object. A callback slot holds a function of the consumer or null; the
  model keeps whether the slot is filled, and a call of a filled slot records its
  arguments in \<open>notifications\<close> and returns.
\<close>

record core =
  session :: "session_handle option"
  isProcessing :: bool
  isInitialized :: bool
  abortController :: "nat option"
  sessionParameters :: session_parameters
  onStreamingUpdate :: bool
  onProcessingComplete :: bool
  onError :: bool
  onStatusChange :: bool

definition constructor :: core where
  "constructor =
     \<lparr>session = None, isProcessing = False, isInitialized = False, abortController = None,
      sessionParameters = \<lparr>temperature = 7 / 10, topK = 40\<rparr>,
      onStreamingUpdate = False, onProcessingComplete = False, onError = False,
      onStatusChange = False\<rparr>"

definition notify :: "bool \<Rightarrow> notification \<Rightarrow> host \<Rightarrow> host" where
  "notify slot n w = (if slot then w\<lparr>notifications := notifications w @ [n]\<rparr> else w)"

definition updateStatus :: "core \<Rightarrow> string \<Rightarrow> host \<Rightarrow> host" where
  "updateStatus s st w = notify (onStatusChange s) (StatusChange st) w"

subsection \<open>Capability prober\<close>

definition is_digit :: "char \<Rightarrow> bool" where
  "is_digit c = (48 \<le> (of_char c :: nat) \<and> (of_char c :: nat) \<le> 57)"

text \<open>
  \<open>userAgent.match(/Chrome\/(\d+)/)\<close>: the leftmost position where \<open>Chrome/\<close> is
  followed by a digit; the group is the longest run of digits there.
\<close>

fun chrome_match :: "string \<Rightarrow> string option" where
  "chrome_match [] = None"
| "chrome_match (c # cs) =
     (if take 7 (c # cs) = ''Chrome/'' \<and> takeWhile is_digit (drop 7 (c # cs)) \<noteq> []
      then Some (takeWhile is_digit (drop 7 (c # cs)))
      else chrome_match cs)"

text \<open>
  \<open>parseInt\<close> of a run of digits. The JavaScript number is a double; it is compared
  with 127 only, and the double nearest to a natural number is below 127 exactly when
  the number is.
\<close>

definition parseInt :: "string \<Rightarrow> nat" where
  "parseInt ds = foldl (\<lambda>n c. 10 * n + (of_char c - 48)) 0 ds"

definition getChromeVersion :: "host \<Rightarrow> nat" where
  "getChromeVersion w =
     (case chrome_match (userAgent w) of Some ds \<Rightarrow> parseInt ds | None \<Rightarrow> 0)"

definition getAIInterface :: "host \<Rightarrow> ai_interface option" where
  "getAIInterface w =
     (case window_ai_languageModel w of
        Some i \<Rightarrow> Some i
      | None \<Rightarrow> LanguageModel w)"

record availability_result =
  available :: bool
  status :: string
  error :: "string option"

text \<open>The chain of comparisons on the availability string.\<close>

definition classify :: "string \<Rightarrow> availability_result" where
  "classify a =
     (if a = ''readily'' \<or> a = ''available'' then
        \<lparr>available = True, status = ''ready'', error = None\<rparr>
      else if a = ''after-download'' \<or> a = ''downloading'' then
        \<lparr>available = False, status = ''downloading'', error = Some msg_downloading\<rparr>
      else if a = ''downloadable'' then
        \<lparr>available = False, status = ''downloadable'', error = Some msg_downloadable\<rparr>
      else
        \<lparr>available = False, status = a, error = Some (msg_not_available a)\<rparr>)"

definition query_failed :: "js_error \<Rightarrow> availability_result" where
  "query_failed e = \<lparr>available = False, status = ''error'', error = Some (message e)\<rparr>"

definition log_call :: "host_call \<Rightarrow> host \<Rightarrow> host" where
  "log_call c w = w\<lparr>calls := calls w @ [c]\<rparr>"

definition checkAvailability :: "host \<Rightarrow> availability_result \<times> host" where
  "checkAvailability w =
     (let chromeVersion = getChromeVersion w in
      if chromeVersion < 127 then
        (\<lparr>available = False, status = ''unsupported'',
          error = Some (msg_chrome_required chromeVersion)\<rparr>, w)
      else
        (case getAIInterface w of
           None \<Rightarrow> (\<lparr>available = False, status = ''no-api'', error = Some msg_no_api\<rparr>, w)
         | Some aiInterface \<Rightarrow>
             (case capabilities aiInterface of
                Some (Resolves a) \<Rightarrow> (classify a, log_call CallCapabilities w)
              | Some (Rejects e) \<Rightarrow> (query_failed e, log_call CallCapabilities w)
              | None \<Rightarrow>
                  (case availability aiInterface of
                     Some (Resolves a) \<Rightarrow> (classify a, log_call CallAvailability w)
                   | Some (Rejects e) \<Rightarrow> (query_failed e, log_call CallAvailability w)
                   | None \<Rightarrow> (classify ''no'', w)))))"

subsection \<open>Session manager\<close>

definition session_destroy :: "session_handle \<Rightarrow> host \<Rightarrow> host" where
  "session_destroy h w = (log_call (CallDestroy (sid h)) w)\<lparr>destroyed := sid h # destroyed w\<rparr>"

text \<open>The guarded \<open>this.session.destroy()\<close> of \<open>createSession\<close> and \<open>destroy\<close>.\<close>

definition destroy_if_possible :: "core \<Rightarrow> host \<Rightarrow> host" where
  "destroy_if_possible s w =
     (case session s of
        Some h \<Rightarrow> if has_destroy h then session_destroy h w else w
      | None \<Rightarrow> w)"

text \<open>A \<open>create\<close> call on the host: logged, answered by the script.\<close>

definition host_create ::
  "accessor \<Rightarrow> create_options \<Rightarrow> host \<Rightarrow> (session_handle settled \<times> host) option" where
  "host_create acc opts w =
     (case create_script w of
        [] \<Rightarrow> None
      | r # rs \<Rightarrow> Some (r, (log_call (CallCreate acc opts) w)\<lparr>create_script := rs\<rparr>))"

definition reference_error :: js_error where
  "reference_error = \<lparr>name = ''ReferenceError'', message = ''LanguageModel is not defined''\<rparr>"

text \<open>
  \<open>createSession(initialPrompts = null)\<close>. The result is \<open>None\<close> when the host never
  settles the \<open>create\<close> promise. \<open>this.session\<close> is assigned only when the promise
  resolves.
\<close>

definition createSession ::
  "core \<Rightarrow> host \<Rightarrow> string list option \<Rightarrow> (bool outcome \<times> core \<times> host) option" where
  "createSession s w0 prompts =
     (let w = w0\<lparr>invocations := invocations w0 @ [Enter_createSession]\<rparr>;
          w1 = destroy_if_possible s w;
          createOptions =
            \<lparr>parameters = sessionParameters s,
             expectedOutputs = (LanguageModel w1 \<noteq> None \<and> window_ai_languageModel w1 = None),
             initialPrompts =
               (case prompts of
                  Some ps \<Rightarrow> if ps \<noteq> [] then Some ps else None
                | None \<Rightarrow> None)\<rparr>;
          created =
            (if window_ai_languageModel w1 \<noteq> None then
               map_option Some (host_create Namespaced createOptions w1)
             else if LanguageModel w1 \<noteq> None then
               map_option Some (host_create Global createOptions w1)
             else Some None)
      in case created of
           None \<Rightarrow> None
         | Some None \<Rightarrow> Some (Throw reference_error, s, w1)
         | Some (Some (Resolves h, w2)) \<Rightarrow> Some (Return True, s\<lparr>session := Some h\<rparr>, w2)
         | Some (Some (Rejects e, w2)) \<Rightarrow> Some (Throw e, s, w2))"

record init_result =
  init_success :: bool
  init_available :: "bool option"
  init_status :: string
  init_error :: "string option"

text \<open>\<open>initialize()\<close>; \<open>{ success: false, ...availability }\<close> copies the three fields.\<close>

definition initialize :: "core \<Rightarrow> host \<Rightarrow> (init_result \<times> core \<times> host) option" where
  "initialize s w =
     (if isInitialized s \<and> session s \<noteq> None then
        Some (\<lparr>init_success = True, init_available = None, init_status = ''ready'',
               init_error = None\<rparr>, s, w)
      else
        (let w1 = updateStatus s msg_checking w;
             (availability, w2) = checkAvailability w1
         in if \<not> available availability then
              Some (\<lparr>init_success = False, init_available = Some (available availability),
                     init_status = status availability, init_error = error availability\<rparr>,
                    s, w2)
            else
              (case createSession s (updateStatus s msg_creating w2) None of
                 None \<Rightarrow> None
               | Some (Return _, s1, w3) \<Rightarrow>
                   Some (\<lparr>init_success = True, init_available = None, init_status = ''ready'',
                          init_error = None\<rparr>,
                         s1\<lparr>isInitialized := True\<rparr>,
                         updateStatus s1 msg_ready w3)
               | Some (Throw e, s1, w3) \<Rightarrow>
                   Some (\<lparr>init_success = False, init_available = None, init_status = ''error'',
                          init_error = Some (message e)\<rparr>, s1, w3))))"

text \<open>\<open>stopProcessing()\<close> and \<open>destroy()\<close>.\<close>

definition stopProcessing :: "core \<Rightarrow> host \<Rightarrow> bool \<times> core \<times> host" where
  "stopProcessing s w =
     (case abortController s of
        Some c \<Rightarrow>
          (True, s\<lparr>abortController := None, isProcessing := False\<rparr>,
           (log_call (CallAbort c) w)\<lparr>aborted_signals := c # aborted_signals w\<rparr>)
      | None \<Rightarrow> (False, s, w))"

definition destroy :: "core \<Rightarrow> host \<Rightarrow> core \<times> host" where
  "destroy s w =
     (s\<lparr>session := None, isProcessing := False, isInitialized := False\<rparr>,
      destroy_if_possible s w)"

definition isReady :: "core \<Rightarrow> bool" where
  "isReady s = (isInitialized s \<and> session s \<noteq> None \<and> \<not> isProcessing s)"

subsection \<open>Request executor\<close>

text \<open>
  The object \<open>processText\<close> returns. \<open>action\<close> and the metrics exist in the success
  object only; of the metrics the model keeps whether \<open>timeToFirstToken\<close> is a number
  (\<open>Some True\<close>) or null (\<open>Some False\<close>). \<open>aborted\<close> is false where the object has no
  such key.
\<close>

record process_result =
  success :: bool
  result :: string
  aborted :: bool
  action :: "string option"
  timeToFirstToken :: "bool option"

text \<open>The two precondition checks, before \<open>this.isProcessing = true\<close>.\<close>

definition precheck :: "core \<Rightarrow> js_error option" where
  "precheck s =
     (if session s = None then Some (Error msg_session_unavailable)
      else if isProcessing s then Some (Error msg_already_processing)
      else None)"

definition new_AbortController :: "host \<Rightarrow> nat \<times> host" where
  "new_AbortController w = (next_controller w, w\<lparr>next_controller := Suc (next_controller w)\<rparr>)"

definition host_promptStreaming ::
  "session_handle \<Rightarrow> string \<Rightarrow> nat \<Rightarrow> host \<Rightarrow> (stream_behaviour \<times> host) option" where
  "host_promptStreaming h p signal w =
     (case stream_script w of
        [] \<Rightarrow> None
      | b # bs \<Rightarrow>
          Some (b, (log_call (CallPromptStreaming (sid h) p signal) w)\<lparr>stream_script := bs\<rparr>))"

definition host_prompt ::
  "session_handle \<Rightarrow> string \<Rightarrow> nat \<Rightarrow> host \<Rightarrow> (string settled \<times> host) option" where
  "host_prompt h p signal w =
     (case prompt_script w of
        [] \<Rightarrow> None
      | r # rs \<Rightarrow> Some (r, (log_call (CallPrompt (sid h) p signal) w)\<lparr>prompt_script := rs\<rparr>))"

text \<open>
  The \<open>for await\<close> loop over the stream. The loop state is the object, the host, the
  accumulated \<open>result\<close> and \<open>streamingStarted\<close>. An empty chunk is skipped; a call of
  \<open>stopProcessing()\<close> by the consumer runs while the loop is suspended.
\<close>

fun consume_stream ::
  "string \<Rightarrow> metadata \<Rightarrow> string \<Rightarrow> stream_event list \<Rightarrow> core \<times> host \<times> string \<times> bool
     \<Rightarrow> core \<times> host \<times> string \<times> bool" where
  "consume_stream act meta txt [] st = st"
| "consume_stream act meta txt (Chunk c # es) (s, w, res, started) =
     (if c \<noteq> [] then
        consume_stream act meta txt es
          (s, notify (onStreamingUpdate s) (StreamingUpdate c False act meta txt) w,
           res @ c, True)
      else consume_stream act meta txt es (s, w, res, started))"
| "consume_stream act meta txt (StopRequested # es) (s, w, res, started) =
     (case stopProcessing s w of
        (_, s', w') \<Rightarrow> consume_stream act meta txt es (s', w', res, started))"

text \<open>The end of the try block: the completion callback and the success object.\<close>

definition complete ::
  "core \<Rightarrow> host \<Rightarrow> string \<Rightarrow> bool \<Rightarrow> string \<Rightarrow> metadata \<Rightarrow> string
     \<Rightarrow> (process_result outcome \<times> core \<times> host) option" where
  "complete s w res started act meta txt =
     Some (Return \<lparr>success = True, result = res, aborted = False, action = Some act,
                   timeToFirstToken = Some started\<rparr>,
           s, notify (onProcessingComplete s) (ProcessingComplete res act meta txt) w)"

definition type_error :: js_error where
  "type_error =
     \<lparr>name = ''TypeError'',
      message = ''Cannot read properties of null (reading 'promptStreaming')''\<rparr>"

text \<open>
  The head of the try block: the fresh \<open>AbortController\<close>, whose signal every host call
  of this request is given, and the start notification.
\<close>

definition open_request ::
  "core \<Rightarrow> host \<Rightarrow> string \<Rightarrow> string \<Rightarrow> metadata \<Rightarrow> core \<times> host \<times> nat" where
  "open_request s w txt act meta =
     (let (c, w1) = new_AbortController w;
          s1 = s\<lparr>abortController := Some c\<rparr>
      in (s1, notify (onStreamingUpdate s1) (StreamingUpdate [] True act meta txt) w1, c))"

text \<open>
  The try block of \<open>processText\<close>, entered with \<open>isProcessing\<close> already set: how it
  completes (a \<open>return\<close>, or an exception for the outer \<open>catch\<close>), or \<open>None\<close> when the
  host never settles a promise it awaits. Nothing in the block assigns \<open>this.session\<close>,
  so the session read at its head is the one every later line reads.
\<close>

definition try_block ::
  "core \<Rightarrow> host \<Rightarrow> string \<Rightarrow> string \<Rightarrow> metadata
     \<Rightarrow> (process_result outcome \<times> core \<times> host) option" where
  "try_block s w txt act meta =
     (case open_request s w txt act meta of
        (s1, w2, signal) \<Rightarrow>
          (case session s1 of
             None \<Rightarrow> Some (Throw type_error, s1, w2)
           | Some h \<Rightarrow>
               if has_promptStreaming h then
                 (case host_promptStreaming h txt signal w2 of
                    None \<Rightarrow> None
                  | Some (b, w3) \<Rightarrow>
                      (case consume_stream act meta txt (arrivals b) (s1, w3, [], False) of
                         (s2, w4, res, started) \<Rightarrow>
                           (case ending b of
                              StreamEnds \<Rightarrow> complete s2 w4 res started act meta txt
                            | StreamThrows streamError \<Rightarrow>
                                if name streamError = ''AbortError'' then
                                  Some (Return \<lparr>success = False,
                                          result =
                                            (if res \<noteq> [] then res else msg_stopped_by_user),
                                          aborted = True, action = None,
                                          timeToFirstToken = None\<rparr>,
                                        s2\<lparr>isProcessing := False, abortController := None\<rparr>,
                                        w4)
                                else
                                  (case host_prompt h txt signal w4 of
                                     None \<Rightarrow> None
                                   | Some (Rejects e, w5) \<Rightarrow> Some (Throw e, s2, w5)
                                   | Some (Resolves r, w5) \<Rightarrow>
                                       complete s2
                                         (notify (onStreamingUpdate s2)
                                            (StreamingUpdate r False act meta txt) w5)
                                         r started act meta txt))))
               else
                 (case host_prompt h txt signal w2 of
                    None \<Rightarrow> None
                  | Some (Rejects e, w3) \<Rightarrow> Some (Throw e, s1, w3)
                  | Some (Resolves r, w3) \<Rightarrow>
                      complete s1
                        (notify (onStreamingUpdate s1) (StreamingUpdate r False act meta txt) w3)
                        r False act meta txt)))"

definition finally_block :: "core \<Rightarrow> core" where
  "finally_block s = s\<lparr>isProcessing := False, abortController := None\<rparr>"

definition session_expired :: "js_error \<Rightarrow> bool" where
  "session_expired e =
     (message e \<noteq> [] \<and>
      (includes_str (message e) ''destroyed'' \<or> includes_str (message e) ''quota''))"

definition aborted_empty :: process_result where
  "aborted_empty =
     \<lparr>success = False, result = [], aborted = True, action = None, timeToFirstToken = None\<rparr>"

text \<open>
  \<open>processText(text, action, metadata)\<close>: the precondition checks, the try block, the
  outer catch with the recreation of the session and the retry, and the finally block,
  which runs on every way out of the try statement. The result is \<open>None\<close> when the host
  never settles a promise the call awaits. The recursion is that of the code; it ends
  because every retry follows a \<open>create\<close> call that the host has answered, which
  is proved below.
\<close>

function processText ::
  "core \<Rightarrow> host \<Rightarrow> string \<Rightarrow> string \<Rightarrow> metadata
     \<Rightarrow> (process_result outcome \<times> core \<times> host) option" where
  "processText s w0 txt act meta =
     (let w = w0\<lparr>invocations := invocations w0 @ [Enter_processText txt act meta]\<rparr> in
      case precheck s of
        Some e \<Rightarrow> Some (Throw e, s, w)
      | None \<Rightarrow>
          (case try_block (s\<lparr>isProcessing := True\<rparr>) w txt act meta of
             None \<Rightarrow> None
           | Some (Return r, s1, w1) \<Rightarrow> Some (Return r, finally_block s1, w1)
           | Some (Throw e, s1, w1) \<Rightarrow>
               if name e = ''AbortError'' then
                 Some (Return aborted_empty, finally_block s1, w1)
               else if session_expired e then
                 (case createSession (s1\<lparr>isInitialized := False\<rparr>) w1 None of
                    None \<Rightarrow> None
                  | Some (Throw e', s2, w2) \<Rightarrow> Some (Throw e', finally_block s2, w2)
                  | Some (Return _, s2, w2) \<Rightarrow>
                      (case processText (s2\<lparr>isInitialized := True\<rparr>) w2 txt act meta of
                         None \<Rightarrow> None
                       | Some (out, s3, w3) \<Rightarrow> Some (out, finally_block s3, w3)))
               else
                 Some (Throw e, finally_block s1,
                       notify (onError s1) (ErrorNotice (message e)) w1)))"
  by pat_completeness auto

section \<open>Offline cache worker\<close>

text \<open>The fields of a request that the handler reads: \<open>method\<close>, \<open>mode\<close>, and its URL.\<close>

record request =
  req_method :: string
  mode :: string
  url :: string

type_synonym response = string

text \<open>
  A cache maps request URLs to responses; the cache storage lists the caches by name in
  the order of their creation, the order in which \<open>caches.match\<close> searches them.
\<close>

type_synonym cache = "(string \<times> response) list"

type_synonym cache_storage = "(string \<times> cache) list"

definition CACHE_NAME :: string where
  "CACHE_NAME = ''gemini-nano-offline-v1''"

definition index_html :: string where
  "index_html = ''./index.html''"

fun caches_match :: "cache_storage \<Rightarrow> string \<Rightarrow> response option" where
  "caches_match [] k = None"
| "caches_match ((n, c) # cs) k =
     (case map_of c k of Some r \<Rightarrow> Some r | None \<Rightarrow> caches_match cs k)"

text \<open>
  \<open>caches.open(name).then((cache) => cache.put(k, r))\<close>: \<open>open\<close> creates the cache when
  there is none of that name, \<open>put\<close> replaces the entry of the key.
\<close>

definition cache_put :: "cache_storage \<Rightarrow> string \<Rightarrow> string \<Rightarrow> response \<Rightarrow> cache_storage" where
  "cache_put st n k r =
     (case map_of st n of
        Some c \<Rightarrow> AList.update n (AList.update k r c) st
      | None \<Rightarrow> st @ [(n, [(k, r)])])"

text \<open>What the handler does with the event, and the steps it takes, in order.\<close>

datatype fetch_handling = PassThrough | RespondWith "response option"

datatype sw_step = Fetch string | CacheMatch string | CachePut string string response

text \<open>
  The fetch listener. \<open>net\<close> is how \<open>fetch(request)\<close> settles. A handler that returns
  without \<open>respondWith\<close> leaves the request to the browser; \<open>RespondWith None\<close> is a
  response promise that resolves to undefined.
\<close>

definition fetch_listener ::
  "cache_storage \<Rightarrow> response settled \<Rightarrow> request
     \<Rightarrow> fetch_handling \<times> cache_storage \<times> sw_step list" where
  "fetch_listener st net req =
     (if req_method req \<noteq> ''GET'' then (PassThrough, st, [])
      else if mode req = ''navigate'' then
        (case net of
           Resolves response \<Rightarrow>
             (RespondWith (Some response), cache_put st CACHE_NAME index_html response,
              [Fetch (url req), CachePut CACHE_NAME index_html response])
         | Rejects _ \<Rightarrow>
             (RespondWith (caches_match st index_html), st,
              [Fetch (url req), CacheMatch index_html]))
      else
        (case caches_match st (url req) of
           Some cachedResponse \<Rightarrow>
             (RespondWith (Some cachedResponse), st, [CacheMatch (url req)])
         | None \<Rightarrow>
             (case net of
                Resolves response \<Rightarrow>
                  (RespondWith (Some response), cache_put st CACHE_NAME (url req) response,
                   [CacheMatch (url req), Fetch (url req),
                    CachePut CACHE_NAME (url req) response])
              | Rejects _ \<Rightarrow>
                  (RespondWith None, st, [CacheMatch (url req), Fetch (url req)]))))"

section \<open>Observations used to state the properties\<close>

text \<open>The chunks a stream delivers, and those of them that are not empty.\<close>

fun chunks_of :: "stream_event list \<Rightarrow> string list" where
  "chunks_of [] = []"
| "chunks_of (Chunk c # es) = c # chunks_of es"
| "chunks_of (StopRequested # es) = chunks_of es"

definition forwarded :: "stream_event list \<Rightarrow> string list" where
  "forwarded es = filter (\<lambda>c. c \<noteq> []) (chunks_of es)"

text \<open>The chunk notifications of a request for the given texts, in order.\<close>

definition chunk_updates ::
  "string \<Rightarrow> metadata \<Rightarrow> string \<Rightarrow> string list \<Rightarrow> notification list" where
  "chunk_updates act meta txt cs = map (\<lambda>c. StreamingUpdate c False act meta txt) cs"

text \<open>The chunk texts among the notifications a consumer received.\<close>

fun chunk_texts :: "notification list \<Rightarrow> string list" where
  "chunk_texts [] = []"
| "chunk_texts (StreamingUpdate c False _ _ _ # ns) = c # chunk_texts ns"
| "chunk_texts (_ # ns) = chunk_texts ns"

text \<open>The prompt calls among the calls made on the host.\<close>

fun prompt_calls :: "host_call list \<Rightarrow> host_call list" where
  "prompt_calls [] = []"
| "prompt_calls (CallPromptStreaming i p c # cs) = CallPromptStreaming i p c # prompt_calls cs"
| "prompt_calls (CallPrompt i p c # cs) = CallPrompt i p c # prompt_calls cs"
| "prompt_calls (_ # cs) = prompt_calls cs"

text \<open>The parts of the result of a call.\<close>

definition returned :: "('a outcome \<times> core \<times> host) option \<Rightarrow> 'a option" where
  "returned x = (case x of Some (Return r, _, _) \<Rightarrow> Some r | _ \<Rightarrow> None)"

definition thrown :: "('a outcome \<times> core \<times> host) option \<Rightarrow> js_error option" where
  "thrown x = (case x of Some (Throw e, _, _) \<Rightarrow> Some e | _ \<Rightarrow> None)"

definition final_core :: "('a \<times> core \<times> host) option \<Rightarrow> core option" where
  "final_core x = map_option (\<lambda>(_, s, _). s) x"

definition final_host :: "('a \<times> core \<times> host) option \<Rightarrow> host option" where
  "final_host x = map_option (\<lambda>(_, _, w). w) x"

text \<open>The entry of a key in the cache of a given name.\<close>

definition cache_entry :: "cache_storage \<Rightarrow> string \<Rightarrow> string \<Rightarrow> response option" where
  "cache_entry st n k = (case map_of st n of Some c \<Rightarrow> map_of c k | None \<Rightarrow> None)"

section \<open>Concrete hosts and objects\<close>

text \<open>A host whose user agent reports Chrome 120, with both capability surfaces present.\<close>

definition host_chrome120 :: host where
  "host_chrome120 =
     \<lparr>userAgent =
        ''Mozilla/5.0 (X11; Linux x86_64) AppleWebKit/537.36 (KHTML, like Gecko) '' @
        ''Chrome/120.0.0.0 Safari/537.36'',
      window_ai_languageModel =
        Some \<lparr>capabilities = Some (Resolves ''readily''), availability = None\<rparr>,
      LanguageModel =
        Some \<lparr>capabilities = None, availability = Some (Resolves ''available'')\<rparr>,
      create_script = [], stream_script = [], prompt_script = [], next_controller = 0,
      calls = [], notifications = [], invocations = [], destroyed = [], aborted_signals = []\<rparr>"

text \<open>A host of Chrome 131 whose legacy query answers that the model is downloadable.\<close>

definition host_downloadable :: host where
  "host_downloadable =
     \<lparr>userAgent = ''Mozilla/5.0 Chrome/131.0.0.0 Safari/537.36'',
      window_ai_languageModel = None,
      LanguageModel =
        Some \<lparr>capabilities = None, availability = Some (Resolves ''downloadable'')\<rparr>,
      create_script = [], stream_script = [], prompt_script = [], next_controller = 0,
      calls = [], notifications = [], invocations = [], destroyed = [], aborted_signals = []\<rparr>"

text \<open>
  Two sessions with all the optional methods, an object that holds the first one with
  the four callbacks set, and a host of Chrome 131 with the namespaced interface.
\<close>

definition session0 :: session_handle where
  "session0 = \<lparr>sid = 0, has_promptStreaming = True, has_destroy = True\<rparr>"

definition session1 :: session_handle where
  "session1 = \<lparr>sid = 1, has_promptStreaming = True, has_destroy = True\<rparr>"

definition core_ready :: core where
  "core_ready =
     \<lparr>session = Some session0, isProcessing = False, isInitialized = True,
      abortController = None, sessionParameters = \<lparr>temperature = 7 / 10, topK = 40\<rparr>,
      onStreamingUpdate = True, onProcessingComplete = True, onError = True,
      onStatusChange = True\<rparr>"

definition host_ready :: host where
  "host_ready =
     \<lparr>userAgent = ''Mozilla/5.0 Chrome/131.0.0.0 Safari/537.36'',
      window_ai_languageModel =
        Some \<lparr>capabilities = Some (Resolves ''readily''), availability = None\<rparr>,
      LanguageModel = None,
      create_script = [], stream_script = [], prompt_script = [], next_controller = 0,
      calls = [], notifications = [], invocations = [], destroyed = [],
      aborted_signals = []\<rparr>"

definition abort_error :: js_error where
  "abort_error = \<lparr>name = ''AbortError'', message = ''The operation was aborted.''\<rparr>"

text \<open>A stream that delivers \<open>Hel\<close>, an empty chunk and \<open>lo\<close>, and ends.\<close>

definition host_stream_ok :: host where
  "host_stream_ok =
     host_ready\<lparr>stream_script :=
       [\<lparr>arrivals = [Chunk ''Hel'', Chunk [], Chunk ''lo''], ending = StreamEnds\<rparr>]\<rparr>"

text \<open>A stream cancelled by the consumer after two chunks, and one cancelled at once.\<close>

definition host_cancel_after_two :: host where
  "host_cancel_after_two =
     host_ready\<lparr>stream_script :=
       [\<lparr>arrivals = [Chunk ''Hel'', Chunk ''lo'', StopRequested],
         ending = StreamThrows abort_error\<rparr>]\<rparr>"

definition host_cancel_at_once :: host where
  "host_cancel_at_once =
     host_ready\<lparr>stream_script :=
       [\<lparr>arrivals = [StopRequested], ending = StreamThrows abort_error\<rparr>]\<rparr>"



text \<open>
  A stream that throws a network error after \<open>Hello\<close>, on a host whose blocking
  prompt answers \<open>World\<close>.
\<close>

definition host_fallback :: host where
  "host_fallback =
     host_ready\<lparr>stream_script :=
       [\<lparr>arrivals = [Chunk ''Hello''], ending = StreamThrows (Error ''network error'')\<rparr>],
       prompt_script := [Resolves ''World'']\<rparr>"

text \<open>
  A host whose session has been destroyed: the stream and the blocking prompt throw,
  and \<open>create\<close> answers with a new session.
\<close>

definition destroyed_error :: js_error where
  "destroyed_error =
     \<lparr>name = ''InvalidStateError'', message = ''The session has been destroyed.''\<rparr>"

definition host_expired :: host where
  "host_expired =
     host_ready\<lparr>stream_script := [\<lparr>arrivals = [], ending = StreamThrows destroyed_error\<rparr>],
       prompt_script := [Rejects destroyed_error],
       create_script := [Resolves session1]\<rparr>"

text \<open>A host that answers the first \<open>create\<close> with a session and rejects the second.\<close>

definition host_create_fails :: host where
  "host_create_fails =
     host_ready\<lparr>create_script :=
       [Resolves session0, Rejects (Error ''The model is unavailable.'')]\<rparr>"

text \<open>
  The object and the host after \<open>createSession()\<close> has been called twice on the object
  as constructed, and then the host as it answers from a destroyed session.
\<close>

definition after_failed_recreation :: "(core \<times> host) option" where
  "after_failed_recreation =
     (case createSession constructor host_create_fails None of
        None \<Rightarrow> None
      | Some (_, s1, w1) \<Rightarrow>
          (case createSession s1 w1 None of
             None \<Rightarrow> None
           | Some (_, s2, w2) \<Rightarrow>
               Some (s2,
                     w2\<lparr>stream_script :=
                          [\<lparr>arrivals = [], ending = StreamThrows destroyed_error\<rparr>],
                        prompt_script := [Rejects destroyed_error],
                        create_script := [Resolves session1]\<rparr>)))"

definition request_after_failed_recreation ::
  "(process_result outcome \<times> core \<times> host) option" where
  "request_after_failed_recreation =
     (case after_failed_recreation of
        None \<Rightarrow> None
      | Some (s, w) \<Rightarrow> processText s w ''hi'' ''ask'' [])"

text \<open>Requests and a cache storage for the service worker.\<close>

definition req_post :: request where
  "req_post = \<lparr>req_method = ''POST'', mode = ''cors'', url = ''https://example.org/api''\<rparr>"

definition req_nav :: request where
  "req_nav = \<lparr>req_method = ''GET'', mode = ''navigate'', url = ''https://example.org/''\<rparr>"

definition req_asset :: request where
  "req_asset = \<lparr>req_method = ''GET'', mode = ''no-cors'', url = ''./style.css''\<rparr>"

definition req_cached :: request where
  "req_cached = \<lparr>req_method = ''GET'', mode = ''no-cors'', url = ''./app.js''\<rparr>"

definition storage0 :: cache_storage where
  "storage0 =
     [(CACHE_NAME, [(''./index.html'', ''<html>old</html>''), (''./app.js'', ''app'')])]"

section \<open>The retry recursion ends\<close>

text \<open>
  Every retry follows a \<open>create\<close> call that the host has answered, and nothing else
  in a call touches the script of these answers: its length decreases.
\<close>

lemma notify_create_script [simp]: "create_script (notify b n w) = create_script w"
  by (simp add: notify_def)

lemma consume_stream_create_script:
  "consume_stream act meta txt es (s, w, res, st) = (s', w', res', st') \<Longrightarrow>
     create_script w' = create_script w"
proof (induction es arbitrary: s w res st)
  case Nil
  then show ?case by simp
next
  case (Cons e es)
  show ?case
  proof (cases e)
    case (Chunk c)
    with Cons show ?thesis by (cases "c = []") auto
  next
    case StopRequested
    with Cons show ?thesis
      by (auto simp: stopProcessing_def log_call_def split: option.splits)
  qed
qed

lemma host_prompt_create_script:
  "host_prompt h p sg w = Some (r, w') \<Longrightarrow> create_script w' = create_script w"
  by (auto simp: host_prompt_def log_call_def split: list.splits)

lemma host_promptStreaming_create_script:
  "host_promptStreaming h p sg w = Some (b, w') \<Longrightarrow> create_script w' = create_script w"
  by (auto simp: host_promptStreaming_def log_call_def split: list.splits)

lemma complete_create_script:
  "complete s w res st act meta txt = Some (out, s', w') \<Longrightarrow>
     create_script w' = create_script w"
  by (auto simp: complete_def)

lemma try_block_create_script:
  "try_block s w txt act meta = Some (out, s', w') \<Longrightarrow> create_script w' = create_script w"
  unfolding try_block_def open_request_def new_AbortController_def Let_def
  by (auto split: option.splits if_splits prod.splits settled.splits stream_end.splits
      dest!: consume_stream_create_script host_prompt_create_script
        host_promptStreaming_create_script complete_create_script)

lemma destroy_if_possible_create_script [simp]:
  "create_script (destroy_if_possible s w) = create_script w"
  by (simp add: destroy_if_possible_def session_destroy_def log_call_def split: option.splits)

lemma host_create_consumes:
  "host_create acc opts w = Some (r, w') \<Longrightarrow>
     length (create_script w') < length (create_script w)"
  by (auto simp: host_create_def log_call_def split: list.splits)

lemma createSession_consumes:
  "createSession s w ps = Some (Return b, s', w') \<Longrightarrow>
     length (create_script w') < length (create_script w)"
  unfolding createSession_def Let_def
  by (auto split: option.splits if_splits settled.splits dest!: host_create_consumes)

termination processText
  apply (relation "measure (\<lambda>(s, w, txt, act, meta). length (create_script w))")
   apply simp
  apply (auto dest!: try_block_create_script createSession_consumes)
  done

declare processText.simps [simp del]

section \<open>Capability prober and initialisation\<close>

text \<open>
  C6. When the Chrome version read from the user agent is below 127, \<open>checkAvailability\<close>
  answers \<open>{available: false, status: 'unsupported'}\<close> and leaves the host as it was: no
  call is logged, so neither \<open>capabilities()\<close> nor \<open>availability()\<close> was invoked.
\<close>

theorem checkAvailability_unsupported:
  "getChromeVersion w < 127 \<Longrightarrow>
     available (fst (checkAvailability w)) = False \<and>
     status (fst (checkAvailability w)) = ''unsupported'' \<and>
     snd (checkAvailability w) = w \<and>
     calls (snd (checkAvailability w)) = calls w"
  by (simp add: checkAvailability_def Let_def)

theorem checkAvailability_unsupported_witness:
  "getChromeVersion host_chrome120 = 120 \<and>
   available (fst (checkAvailability host_chrome120)) = False \<and>
   status (fst (checkAvailability host_chrome120)) = ''unsupported'' \<and>
   calls (snd (checkAvailability host_chrome120)) = []"
proof -
  have v: "getChromeVersion host_chrome120 = 120"
    by (simp add: getChromeVersion_def host_chrome120_def parseInt_def is_digit_def)
  then have "getChromeVersion host_chrome120 < 127" by simp
  from checkAvailability_unsupported [OF this] v show ?thesis
    by (simp add: host_chrome120_def)
qed

text \<open>The probe reads the user agent and the capability surfaces only.\<close>

lemma checkAvailability_notify:
  "fst (checkAvailability (notify b n w)) = fst (checkAvailability w)"
  by (simp add: checkAvailability_def getChromeVersion_def getAIInterface_def notify_def
      Let_def split: option.splits settled.splits)

lemma classify_available: "available (classify a) \<Longrightarrow> status (classify a) = ''ready''"
  by (auto simp: classify_def)

lemma checkAvailability_available:
  "available (fst (checkAvailability w)) \<Longrightarrow> status (fst (checkAvailability w)) = ''ready''"
  unfolding checkAvailability_def Let_def
  by (auto simp: query_failed_def classify_available
      split: if_splits option.splits settled.splits)

text \<open>The status a capability query resolves to is the status of the probe.\<close>

lemma checkAvailability_query_status:
  assumes "127 \<le> getChromeVersion w" and "getAIInterface w = Some i"
    and "capabilities i = Some (Resolves a) \<or>
         capabilities i = None \<and> availability i = Some (Resolves a)"
    and "a = ''downloadable'' \<or> a = ''downloading''"
  shows "status (fst (checkAvailability w)) = a"
  using assms by (auto simp: checkAvailability_def Let_def classify_def)

text \<open>
  C7. When the probe answers with the status \<open>downloadable\<close> or \<open>downloading\<close>, be it
  the status of the result of \<open>checkAvailability\<close> or the status string that the
  capability query of a supported host resolves to, \<open>initialize\<close> returns
  \<open>success: false\<close> with the same status, and the object is unchanged. The probe runs
  unless the object already holds a session and is initialised, the case in which
  \<open>initialize\<close> returns at once without probing.
\<close>

theorem initialize_not_ready:
  assumes "\<not> (isInitialized s \<and> session s \<noteq> None)"
    and "a = ''downloadable'' \<or> a = ''downloading''"
    and "status (fst (checkAvailability w)) = a \<or>
         127 \<le> getChromeVersion w \<and>
         (\<exists>i. getAIInterface w = Some i \<and>
            (capabilities i = Some (Resolves a) \<or>
             capabilities i = None \<and> availability i = Some (Resolves a)))"
  shows "\<exists>r w'. initialize s w = Some (r, s, w') \<and> init_success r = False \<and>
           init_status r = a"
proof -
  let ?w1 = "updateStatus s msg_checking w"
  have same: "fst (checkAvailability ?w1) = fst (checkAvailability w)"
    by (simp add: updateStatus_def checkAvailability_notify)
  from assms(2,3) have st: "status (fst (checkAvailability w)) = a"
    using checkAvailability_query_status [of w _ a] by blast
  with assms(2) checkAvailability_available [of w]
  have "\<not> available (fst (checkAvailability w))" by auto
  with assms(1) same st show ?thesis
    by (simp add: initialize_def Let_def split_beta)
qed

theorem initialize_not_ready_witness:
  "status (fst (checkAvailability host_downloadable)) = ''downloadable'' \<and>
   getAIInterface host_downloadable =
     Some \<lparr>capabilities = None, availability = Some (Resolves ''downloadable'')\<rparr> \<and>
   (\<exists>r w'. initialize constructor host_downloadable = Some (r, constructor, w') \<and>
      init_success r = False \<and> init_status r = ''downloadable'')"
proof -
  have v: "getChromeVersion host_downloadable = 131"
    by (simp add: getChromeVersion_def host_downloadable_def parseInt_def is_digit_def)
  have i: "getAIInterface host_downloadable =
      Some \<lparr>capabilities = None, availability = Some (Resolves ''downloadable'')\<rparr>"
    by (simp add: getAIInterface_def host_downloadable_def)
  have st: "status (fst (checkAvailability host_downloadable)) = ''downloadable''"
    using v i by (simp add: checkAvailability_def Let_def classify_def)
  have c: "\<not> (isInitialized constructor \<and> session constructor \<noteq> None)"
    by (simp add: constructor_def)
  have a: "''downloadable'' = ''downloadable'' \<or> ''downloadable'' = ''downloading''"
    by simp
  from initialize_not_ready [OF c a, of host_downloadable] st i show ?thesis by simp
qed

section \<open>Request executor\<close>

subsection \<open>What a notification and a logged call change\<close>

lemma notify_fields [simp]:
  "notifications (notify b n w) = notifications w @ (if b then [n] else [])"
  "calls (notify b n w) = calls w"
  "invocations (notify b n w) = invocations w"
  "stream_script (notify b n w) = stream_script w"
  "prompt_script (notify b n w) = prompt_script w"
  "next_controller (notify b n w) = next_controller w"
  "destroyed (notify b n w) = destroyed w"
  "aborted_signals (notify b n w) = aborted_signals w"
  "window_ai_languageModel (notify b n w) = window_ai_languageModel w"
  "LanguageModel (notify b n w) = LanguageModel w"
  "userAgent (notify b n w) = userAgent w"
  by (simp_all add: notify_def)

lemma log_call_fields [simp]:
  "calls (log_call c w) = calls w @ [c]"
  "notifications (log_call c w) = notifications w"
  "invocations (log_call c w) = invocations w"
  "create_script (log_call c w) = create_script w"
  "stream_script (log_call c w) = stream_script w"
  "prompt_script (log_call c w) = prompt_script w"
  "next_controller (log_call c w) = next_controller w"
  "destroyed (log_call c w) = destroyed w"
  "aborted_signals (log_call c w) = aborted_signals w"
  "window_ai_languageModel (log_call c w) = window_ai_languageModel w"
  "LanguageModel (log_call c w) = LanguageModel w"
  "userAgent (log_call c w) = userAgent w"
  by (simp_all add: log_call_def)

lemma prompt_calls_append [simp]:
  "prompt_calls (xs @ ys) = prompt_calls xs @ prompt_calls ys"
  by (induction xs rule: prompt_calls.induct) simp_all

lemma concat_forwarded: "concat (forwarded es) = concat (chunks_of es)"
  by (induction es rule: chunks_of.induct) (auto simp: forwarded_def)

lemma chunk_texts_append [simp]:
  "chunk_texts (xs @ ys) = chunk_texts xs @ chunk_texts ys"
  by (induction xs rule: chunk_texts.induct) simp_all

lemma chunk_texts_updates [simp]: "chunk_texts (chunk_updates act meta txt cs) = cs"
  by (induction cs) (simp_all add: chunk_updates_def)

subsection \<open>The stream loop\<close>

lemma stopProcessing_frame:
  "stopProcessing s w = (b, s', w') \<Longrightarrow>
     session s' = session s \<and> isInitialized s' = isInitialized s \<and>
     sessionParameters s' = sessionParameters s \<and>
     onStreamingUpdate s' = onStreamingUpdate s \<and>
     onProcessingComplete s' = onProcessingComplete s \<and> onError s' = onError s \<and>
     onStatusChange s' = onStatusChange s \<and>
     notifications w' = notifications w \<and> invocations w' = invocations w \<and>
     prompt_script w' = prompt_script w \<and> stream_script w' = stream_script w \<and>
     create_script w' = create_script w \<and> destroyed w' = destroyed w \<and>
     window_ai_languageModel w' = window_ai_languageModel w \<and>
     LanguageModel w' = LanguageModel w \<and> next_controller w' = next_controller w \<and>
     prompt_calls (calls w') = prompt_calls (calls w)"
  by (auto simp: stopProcessing_def split: option.splits)

lemma consume_stream_text:
  "consume_stream act meta txt es (s, w, res, st) = (s', w', res', st') \<Longrightarrow>
     res' = res @ concat (chunks_of es) \<and> st' = (st \<or> forwarded es \<noteq> [])"
proof (induction es arbitrary: s w res st)
  case Nil
  then show ?case by (simp add: forwarded_def)
next
  case (Cons e es)
  show ?case
  proof (cases e)
    case (Chunk c)
    with Cons.prems show ?thesis
      by (cases "c = []") (auto simp: forwarded_def dest!: Cons.IH)
  next
    case StopRequested
    with Cons.prems show ?thesis
      by (auto simp: forwarded_def split: prod.splits dest!: Cons.IH)
  qed
qed

lemma consume_stream_core:
  "consume_stream act meta txt es (s, w, res, st) = (s', w', res', st') \<Longrightarrow>
     session s' = session s \<and> isInitialized s' = isInitialized s \<and>
     sessionParameters s' = sessionParameters s \<and>
     onStreamingUpdate s' = onStreamingUpdate s \<and>
     onProcessingComplete s' = onProcessingComplete s \<and> onError s' = onError s \<and>
     onStatusChange s' = onStatusChange s"
proof (induction es arbitrary: s w res st)
  case Nil
  then show ?case by simp
next
  case (Cons e es)
  show ?case
  proof (cases e)
    case (Chunk c)
    with Cons.prems show ?thesis by (cases "c = []") (auto dest!: Cons.IH)
  next
    case StopRequested
    with Cons.prems show ?thesis
      by (auto split: prod.splits dest!: stopProcessing_frame Cons.IH)
  qed
qed

lemma consume_stream_notifications:
  "consume_stream act meta txt es (s, w, res, st) = (s', w', res', st') \<Longrightarrow>
     notifications w' =
       notifications w @
       (if onStreamingUpdate s then chunk_updates act meta txt (forwarded es) else [])"
proof (induction es arbitrary: s w res st)
  case Nil
  then show ?case by (simp add: forwarded_def chunk_updates_def)
next
  case (Cons e es)
  show ?case
  proof (cases e)
    case (Chunk c)
    with Cons.prems show ?thesis
      by (cases "c = []") (auto simp: forwarded_def chunk_updates_def dest!: Cons.IH)
  next
    case StopRequested
    with Cons.prems show ?thesis
      by (auto simp: forwarded_def split: prod.splits dest!: stopProcessing_frame Cons.IH)
  qed
qed

lemma consume_stream_host:
  "consume_stream act meta txt es (s, w, res, st) = (s', w', res', st') \<Longrightarrow>
     invocations w' = invocations w \<and>
     prompt_script w' = prompt_script w \<and> stream_script w' = stream_script w \<and>
     create_script w' = create_script w \<and> destroyed w' = destroyed w \<and>
     window_ai_languageModel w' = window_ai_languageModel w \<and>
     LanguageModel w' = LanguageModel w \<and> next_controller w' = next_controller w \<and>
     prompt_calls (calls w') = prompt_calls (calls w)"
proof (induction es arbitrary: s w res st)
  case Nil
  then show ?case by simp
next
  case (Cons e es)
  show ?case
  proof (cases e)
    case (Chunk c)
    with Cons.prems show ?thesis by (cases "c = []") (auto dest!: Cons.IH)
  next
    case StopRequested
    with Cons.prems show ?thesis
      by (auto split: prod.splits dest!: stopProcessing_frame Cons.IH)
  qed
qed


text \<open>The try block of a session that streams, from the outcome of the loop on.\<close>

lemma try_block_streaming:
  assumes "session s = Some h" and "has_promptStreaming h" and "stream_script w = b # bs"
    and "consume_stream act meta txt (arrivals b)
           (s\<lparr>abortController := Some (next_controller w)\<rparr>,
            (log_call (CallPromptStreaming (sid h) txt (next_controller w))
               (notify (onStreamingUpdate s) (StreamingUpdate [] True act meta txt)
                  (w\<lparr>next_controller := Suc (next_controller w)\<rparr>)))\<lparr>stream_script := bs\<rparr>,
            [], False) = (s2, w4, res, started)"
  shows "try_block s w txt act meta =
     (case ending b of
        StreamEnds \<Rightarrow> complete s2 w4 res started act meta txt
      | StreamThrows streamError \<Rightarrow>
          if name streamError = ''AbortError'' then
            Some (Return \<lparr>success = False,
                    result = (if res \<noteq> [] then res else msg_stopped_by_user),
                    aborted = True, action = None, timeToFirstToken = None\<rparr>,
                  s2\<lparr>isProcessing := False, abortController := None\<rparr>, w4)
          else
            (case host_prompt h txt (next_controller w) w4 of
               None \<Rightarrow> None
             | Some (Rejects e, w5) \<Rightarrow> Some (Throw e, s2, w5)
             | Some (Resolves r, w5) \<Rightarrow>
                 complete s2
                   (notify (onStreamingUpdate s2) (StreamingUpdate r False act meta txt) w5)
                   r started act meta txt))"
  using assms
  by (simp add: try_block_def open_request_def new_AbortController_def
      host_promptStreaming_def)

subsection \<open>Cancellation\<close>

text \<open>
  C3, amended. A streamed request whose stream throws the cancellation error returns
  the aborted result (\<open>success: false, aborted: true\<close>). Its text is the concatenation
  of the chunks delivered before, when that is not empty, and the fixed text
  \<open>Parado pelo usuario\<close> (with its accent) when it is empty. The consumer has received
  the start notification and the non-empty chunks; no completion notification fires.
\<close>

theorem processText_cancelled:
  assumes "session s = Some h" and "has_promptStreaming h" and "\<not> isProcessing s"
    and "stream_script w = b # bs" and "ending b = StreamThrows e"
    and "name e = ''AbortError''"
  shows "\<exists>s' w'.
           processText s w txt act meta =
             Some (Return \<lparr>success = False,
                     result =
                       (if concat (chunks_of (arrivals b)) \<noteq> []
                        then concat (chunks_of (arrivals b)) else msg_stopped_by_user),
                     aborted = True, action = None, timeToFirstToken = None\<rparr>, s', w') \<and>
           notifications w' =
             notifications w @
             (if onStreamingUpdate s
              then StreamingUpdate [] True act meta txt #
                   chunk_updates act meta txt (forwarded (arrivals b))
              else []) \<and>
           isProcessing s' = False \<and> abortController s' = None"
proof -
  let ?w = "w\<lparr>invocations := invocations w @ [Enter_processText txt act meta]\<rparr>"
  let ?s = "s\<lparr>isProcessing := True\<rparr>"
  obtain s2 w4 res started where cs:
    "consume_stream act meta txt (arrivals b)
       (?s\<lparr>abortController := Some (next_controller ?w)\<rparr>,
        (log_call (CallPromptStreaming (sid h) txt (next_controller ?w))
           (notify (onStreamingUpdate ?s) (StreamingUpdate [] True act meta txt)
              (?w\<lparr>next_controller := Suc (next_controller ?w)\<rparr>)))\<lparr>stream_script := bs\<rparr>,
        [], False) = (s2, w4, res, started)"
    by (metis prod_cases4)
  have tb: "try_block ?s ?w txt act meta =
      Some (Return \<lparr>success = False,
              result = (if res \<noteq> [] then res else msg_stopped_by_user),
              aborted = True, action = None, timeToFirstToken = None\<rparr>,
            s2\<lparr>isProcessing := False, abortController := None\<rparr>, w4)"
    using try_block_streaming [OF _ _ _ cs] assms by simp
  from consume_stream_text [OF cs] have res: "res = concat (chunks_of (arrivals b))"
    by simp
  from consume_stream_notifications [OF cs]
  have n: "notifications w4 =
      notifications w @
      (if onStreamingUpdate s
       then StreamingUpdate [] True act meta txt #
            chunk_updates act meta txt (forwarded (arrivals b))
       else [])"
    by simp
  from assms(1,3) have pc: "precheck s = None" by (simp add: precheck_def)
  show ?thesis
    by (subst processText.simps) (simp add: Let_def pc tb res n finally_block_def)
qed

theorem processText_cancelled_witness:
  "returned (processText core_ready host_cancel_after_two ''hi'' ''ask'' []) =
     Some \<lparr>success = False, result = ''Hello'', aborted = True, action = None,
           timeToFirstToken = None\<rparr> \<and>
   map_option notifications
     (final_host (processText core_ready host_cancel_after_two ''hi'' ''ask'' [])) =
     Some [StreamingUpdate [] True ''ask'' [] ''hi'',
           StreamingUpdate ''Hel'' False ''ask'' [] ''hi'',
           StreamingUpdate ''lo'' False ''ask'' [] ''hi'']"
  using processText_cancelled [of core_ready session0 host_cancel_after_two
      "\<lparr>arrivals = [Chunk ''Hel'', Chunk ''lo'', StopRequested],
        ending = StreamThrows abort_error\<rparr>"
      "[]" abort_error "''hi''" "''ask''" "[]"]
  by (auto simp: core_ready_def session0_def host_cancel_after_two_def host_ready_def
      abort_error_def returned_def final_host_def forwarded_def chunk_updates_def)

text \<open>
  Cancelled before any chunk: the text of the aborted result is the fixed text, not the
  empty concatenation.
\<close>

theorem processText_cancelled_at_once:
  "returned (processText core_ready host_cancel_at_once ''hi'' ''ask'' []) =
     Some \<lparr>success = False, result = msg_stopped_by_user, aborted = True, action = None,
           timeToFirstToken = None\<rparr> \<and>
   msg_stopped_by_user \<noteq> concat (chunks_of [StopRequested])"
  by (simp add: processText.simps precheck_def try_block_def open_request_def
      new_AbortController_def host_promptStreaming_def stopProcessing_def
      core_ready_def session0_def host_cancel_at_once_def host_ready_def abort_error_def
      returned_def finally_block_def msg_stopped_by_user_def Let_def)

subsection \<open>Streamed requests that succeed\<close>

text \<open>
  C2, amended. For a streamed request whose stream ends without throwing, with the
  streaming and completion callbacks set: the call succeeds, the consumer receives one
  start notification, then the non-empty chunks in the order of their arrival, then one
  completion notification, and the concatenation of the chunk texts it received is the
  text of the completion notification and of the result.
\<close>

theorem processText_streamed:
  assumes "session s = Some h" and "has_promptStreaming h" and "\<not> isProcessing s"
    and "onStreamingUpdate s" and "onProcessingComplete s"
    and "stream_script w = b # bs" and "ending b = StreamEnds"
  shows "\<exists>s' w' full ns.
           processText s w txt act meta =
             Some (Return \<lparr>success = True, result = full, aborted = False,
                     action = Some act,
                     timeToFirstToken = Some (forwarded (arrivals b) \<noteq> [])\<rparr>, s', w') \<and>
           notifications w' = notifications w @ ns \<and>
           ns =
             StreamingUpdate [] True act meta txt #
             chunk_updates act meta txt (forwarded (arrivals b)) @
             [ProcessingComplete full act meta txt] \<and>
           full = concat (chunks_of (arrivals b)) \<and>
           concat (chunk_texts ns) = full"
proof -
  let ?w = "w\<lparr>invocations := invocations w @ [Enter_processText txt act meta]\<rparr>"
  let ?s = "s\<lparr>isProcessing := True\<rparr>"
  obtain s2 w4 res started where cs:
    "consume_stream act meta txt (arrivals b)
       (?s\<lparr>abortController := Some (next_controller ?w)\<rparr>,
        (log_call (CallPromptStreaming (sid h) txt (next_controller ?w))
           (notify (onStreamingUpdate ?s) (StreamingUpdate [] True act meta txt)
              (?w\<lparr>next_controller := Suc (next_controller ?w)\<rparr>)))\<lparr>stream_script := bs\<rparr>,
        [], False) = (s2, w4, res, started)"
    by (metis prod_cases4)
  have tb: "try_block ?s ?w txt act meta = complete s2 w4 res started act meta txt"
    using try_block_streaming [OF _ _ _ cs] assms by simp
  from consume_stream_text [OF cs]
  have res: "res = concat (chunks_of (arrivals b))"
    and started: "started = (forwarded (arrivals b) \<noteq> [])"
    by simp_all
  from consume_stream_core [OF cs] assms(5)
  have cb: "onProcessingComplete s2" by simp
  from consume_stream_notifications [OF cs] assms(4)
  have n: "notifications w4 =
      notifications w @
      StreamingUpdate [] True act meta txt #
      chunk_updates act meta txt (forwarded (arrivals b))"
    by simp
  from assms(1,3) have pc: "precheck s = None" by (simp add: precheck_def)
  show ?thesis
    by (subst processText.simps)
      (simp add: Let_def pc tb complete_def res started n cb concat_forwarded)
qed

theorem processText_streamed_witness:
  "returned (processText core_ready host_stream_ok ''hi'' ''ask'' []) =
     Some \<lparr>success = True, result = ''Hello'', aborted = False, action = Some ''ask'',
           timeToFirstToken = Some True\<rparr> \<and>
   map_option notifications
     (final_host (processText core_ready host_stream_ok ''hi'' ''ask'' [])) =
     Some [StreamingUpdate [] True ''ask'' [] ''hi'',
           StreamingUpdate ''Hel'' False ''ask'' [] ''hi'',
           StreamingUpdate ''lo'' False ''ask'' [] ''hi'',
           ProcessingComplete ''Hello'' ''ask'' [] ''hi'']"
  using processText_streamed [of core_ready session0 host_stream_ok
      "\<lparr>arrivals = [Chunk ''Hel'', Chunk [], Chunk ''lo''], ending = StreamEnds\<rparr>"
      "[]" "''hi''" "''ask''" "[]"]
  by (auto simp: core_ready_def session0_def host_stream_ok_def host_ready_def
      returned_def final_host_def forwarded_def chunk_updates_def)

text \<open>
  A streamed request that succeeds through the fallback: the consumer has received the
  chunks \<open>Hello\<close> and \<open>World\<close>, and the completion notification and the result carry
  \<open>World\<close>.
\<close>

theorem processText_streamed_fallback_texts:
  "returned (processText core_ready host_fallback ''hi'' ''ask'' []) =
     Some \<lparr>success = True, result = ''World'', aborted = False, action = Some ''ask'',
           timeToFirstToken = Some True\<rparr> \<and>
   map_option notifications
     (final_host (processText core_ready host_fallback ''hi'' ''ask'' [])) =
     Some [StreamingUpdate [] True ''ask'' [] ''hi'',
           StreamingUpdate ''Hello'' False ''ask'' [] ''hi'',
           StreamingUpdate ''World'' False ''ask'' [] ''hi'',
           ProcessingComplete ''World'' ''ask'' [] ''hi''] \<and>
   map_option (concat \<circ> chunk_texts \<circ> notifications)
     (final_host (processText core_ready host_fallback ''hi'' ''ask'' [])) =
     Some ''HelloWorld'' \<and>
   ''HelloWorld'' \<noteq> ''World''"
  by (simp add: processText.simps precheck_def try_block_def open_request_def
      new_AbortController_def host_promptStreaming_def host_prompt_def complete_def
      core_ready_def session0_def host_fallback_def host_ready_def Error_def
      returned_def final_host_def finally_block_def Let_def)

subsection \<open>Fallback to the blocking prompt\<close>

text \<open>
  C8. When the stream of a streamed request throws an error other than the cancellation
  error and the blocking prompt answers, the executor has made one blocking \<open>prompt\<close>
  call after the stream call, with the same signal; the consumer receives the start
  notification, the non-empty chunks of the stream, the full text of the blocking call
  as one more chunk, and the completion notification with that text alone, which is
  also the text of the result.
\<close>

theorem processText_fallback:
  assumes "session s = Some h" and "has_promptStreaming h" and "\<not> isProcessing s"
    and "onStreamingUpdate s" and "onProcessingComplete s"
    and "stream_script w = b # bs" and "ending b = StreamThrows e"
    and "name e \<noteq> ''AbortError''" and "prompt_script w = Resolves r # ps"
  shows "\<exists>s' w'.
           processText s w txt act meta =
             Some (Return \<lparr>success = True, result = r, aborted = False, action = Some act,
                     timeToFirstToken = Some (forwarded (arrivals b) \<noteq> [])\<rparr>, s', w') \<and>
           notifications w' =
             notifications w @
             StreamingUpdate [] True act meta txt #
             chunk_updates act meta txt (forwarded (arrivals b)) @
             [StreamingUpdate r False act meta txt, ProcessingComplete r act meta txt] \<and>
           prompt_calls (calls w') =
             prompt_calls (calls w) @
             [CallPromptStreaming (sid h) txt (next_controller w),
              CallPrompt (sid h) txt (next_controller w)]"
proof -
  let ?w = "w\<lparr>invocations := invocations w @ [Enter_processText txt act meta]\<rparr>"
  let ?s = "s\<lparr>isProcessing := True\<rparr>"
  obtain s2 w4 res started where cs:
    "consume_stream act meta txt (arrivals b)
       (?s\<lparr>abortController := Some (next_controller ?w)\<rparr>,
        (log_call (CallPromptStreaming (sid h) txt (next_controller ?w))
           (notify (onStreamingUpdate ?s) (StreamingUpdate [] True act meta txt)
              (?w\<lparr>next_controller := Suc (next_controller ?w)\<rparr>)))\<lparr>stream_script := bs\<rparr>,
        [], False) = (s2, w4, res, started)"
    by (metis prod_cases4)
  from consume_stream_host [OF cs] assms(9)
  have ps: "prompt_script w4 = Resolves r # ps"
    and pcs: "prompt_calls (calls w4) =
      prompt_calls (calls w) @ [CallPromptStreaming (sid h) txt (next_controller w)]"
    by simp_all
  from consume_stream_text [OF cs]
  have started: "started = (forwarded (arrivals b) \<noteq> [])" by simp
  from consume_stream_core [OF cs] assms(4,5)
  have cb: "onStreamingUpdate s2" "onProcessingComplete s2" by simp_all
  from consume_stream_notifications [OF cs] assms(4)
  have n: "notifications w4 =
      notifications w @
      StreamingUpdate [] True act meta txt #
      chunk_updates act meta txt (forwarded (arrivals b))"
    by simp
  have tb: "try_block ?s ?w txt act meta =
      complete s2
        (notify (onStreamingUpdate s2) (StreamingUpdate r False act meta txt)
           ((log_call (CallPrompt (sid h) txt (next_controller w)) w4)\<lparr>prompt_script := ps\<rparr>))
        r started act meta txt"
    using try_block_streaming [OF _ _ _ cs] assms ps by (simp add: host_prompt_def)
  from assms(1,3) have pc: "precheck s = None" by (simp add: precheck_def)
  show ?thesis
    by (subst processText.simps)
      (simp add: Let_def pc tb complete_def started n cb pcs)
qed

theorem processText_fallback_witness:
  "returned (processText core_ready host_fallback ''hi'' ''ask'' []) =
     Some \<lparr>success = True, result = ''World'', aborted = False, action = Some ''ask'',
           timeToFirstToken = Some True\<rparr> \<and>
   map_option (prompt_calls \<circ> calls)
     (final_host (processText core_ready host_fallback ''hi'' ''ask'' [])) =
     Some [CallPromptStreaming 0 ''hi'' 0, CallPrompt 0 ''hi'' 0]"
  using processText_fallback [of core_ready session0 host_fallback
      "\<lparr>arrivals = [Chunk ''Hello''], ending = StreamThrows (Error ''network error'')\<rparr>"
      "[]" "Error ''network error''" "''World''" "[]" "''hi''" "''ask''" "[]"]
  by (auto simp: core_ready_def session0_def host_fallback_def host_ready_def Error_def
      returned_def final_host_def forwarded_def chunk_updates_def)

subsection \<open>Rejected calls\<close>




text \<open>
  C10. A call that is rejected by a precondition check, because the object holds no
  session or because another request is in flight, throws and returns the object as it
  was: \<open>session\<close>, \<open>isProcessing\<close>, \<open>isInitialized\<close> and \<open>abortController\<close> keep their
  values. The host is as it was but for the log of entries: no notification of any kind
  is emitted and no call is made on the host.
\<close>

theorem processText_rejection_frame:
  assumes "session s = None \<or> isProcessing s"
  shows "\<exists>e w'. processText s w txt act meta = Some (Throw e, s, w') \<and>
           w' = w\<lparr>invocations := invocations w @ [Enter_processText txt act meta]\<rparr> \<and>
           notifications w' = notifications w \<and> calls w' = calls w"
  using assms by (auto simp: processText.simps precheck_def Let_def)

theorem processText_rejection_frame_witness:
  "thrown (processText (core_ready\<lparr>isProcessing := True\<rparr>) host_ready ''hi'' ''ask'' []) =
     Some (Error msg_already_processing) \<and>
   final_core (processText (core_ready\<lparr>isProcessing := True\<rparr>) host_ready ''hi'' ''ask'' []) =
     Some (core_ready\<lparr>isProcessing := True\<rparr>) \<and>
   map_option notifications
     (final_host (processText (core_ready\<lparr>isProcessing := True\<rparr>) host_ready
        ''hi'' ''ask'' [])) = Some [] \<and>
   map_option calls
     (final_host (processText (core_ready\<lparr>isProcessing := True\<rparr>) host_ready
        ''hi'' ''ask'' [])) = Some []"
proof -
  have busy: "session (core_ready\<lparr>isProcessing := True\<rparr>) = None \<or>
      isProcessing (core_ready\<lparr>isProcessing := True\<rparr>)"
    by simp
  have e: "precheck (core_ready\<lparr>isProcessing := True\<rparr>) = Some (Error msg_already_processing)"
    by (simp add: precheck_def core_ready_def)
  from processText_rejection_frame [OF busy, of host_ready "''hi''" "''ask''" "[]"]
  obtain e' w' where
    r: "processText (core_ready\<lparr>isProcessing := True\<rparr>) host_ready ''hi'' ''ask'' [] =
        Some (Throw e', core_ready\<lparr>isProcessing := True\<rparr>, w')"
    and n: "notifications w' = notifications host_ready"
    and c: "calls w' = calls host_ready"
    by blast
  from r e have "e' = Error msg_already_processing"
    by (simp add: processText.simps Let_def)
  with r n c show ?thesis
    by (simp add: thrown_def final_core_def final_host_def host_ready_def)
qed

subsection \<open>Recreation of the session and the retry\<close>

lemma createSession_frame:
  "createSession s w ps = Some (out, s', w') \<Longrightarrow>
     isProcessing s' = isProcessing s \<and> isInitialized s' = isInitialized s \<and>
     abortController s' = abortController s \<and>
     onStreamingUpdate s' = onStreamingUpdate s \<and>
     onProcessingComplete s' = onProcessingComplete s \<and> onError s' = onError s"
  unfolding createSession_def Let_def
  by (auto split: option.splits if_splits settled.splits)

lemma createSession_returns:
  "createSession s w ps = Some (Return b, s', w') \<Longrightarrow>
     \<exists>h. session s' = Some h \<and> create_script w = Resolves h # create_script w'"
  unfolding createSession_def Let_def
  by (auto simp: host_create_def split: option.splits if_splits settled.splits list.splits)

lemma createSession_throws:
  "createSession s w ps = Some (Throw e, s', w') \<Longrightarrow> session s' = session s"
  unfolding createSession_def Let_def
  by (auto split: option.splits if_splits settled.splits)

text \<open>
  C1. The retry that the catch block attempts is rejected. When the try block of an
  accepted call throws an error whose message holds \<open>destroyed\<close> or \<open>quota\<close>, the
  busy flag is still set (the consumer has not called \<open>stopProcessing()\<close>) and
  \<open>createSession()\<close> returns, \<open>processText\<close> is called again with the same arguments,
  and that call fails the check of the busy flag: the finally block of the first call
  has not run yet. The first call throws \<open>already processing\<close>; the request is not
  run again.
\<close>

theorem processText_retry_rejected:
  assumes "precheck s = None"
    and "try_block (s\<lparr>isProcessing := True\<rparr>)
           (w\<lparr>invocations := invocations w @ [Enter_processText txt act meta]\<rparr>)
           txt act meta = Some (Throw e, s1, w1)"
    and "name e \<noteq> ''AbortError''" and "session_expired e" and "isProcessing s1"
    and "createSession (s1\<lparr>isInitialized := False\<rparr>) w1 None = Some (Return b, s2, w2)"
  shows "processText s w txt act meta =
           Some (Throw (Error msg_already_processing),
                 finally_block (s2\<lparr>isInitialized := True\<rparr>),
                 w2\<lparr>invocations := invocations w2 @ [Enter_processText txt act meta]\<rparr>)"
proof -
  from createSession_returns [OF assms(6)] obtain h where h: "session s2 = Some h"
    by blast
  from createSession_frame [OF assms(6)] assms(5) have busy: "isProcessing s2" by simp
  from h busy
  have pc2: "precheck (s2\<lparr>isInitialized := True\<rparr>) = Some (Error msg_already_processing)"
    by (simp add: precheck_def)
  have retry: "processText (s2\<lparr>isInitialized := True\<rparr>) w2 txt act meta =
      Some (Throw (Error msg_already_processing), s2\<lparr>isInitialized := True\<rparr>,
            w2\<lparr>invocations := invocations w2 @ [Enter_processText txt act meta]\<rparr>)"
    by (subst processText.simps) (simp add: Let_def pc2)
  show ?thesis
    by (subst processText.simps) (simp add: Let_def assms retry finally_block_def)
qed

theorem processText_retry_rejected_witness:
  "thrown (processText core_ready host_expired ''hi'' ''ask'' []) =
     Some (Error msg_already_processing)"
proof -
  have pc: "precheck core_ready = None"
    by (simp add: precheck_def core_ready_def)
  have "\<exists>s1 w1 s2 w2.
      try_block (core_ready\<lparr>isProcessing := True\<rparr>)
        (host_expired\<lparr>invocations :=
           invocations host_expired @ [Enter_processText ''hi'' ''ask'' []]\<rparr>)
        ''hi'' ''ask'' [] = Some (Throw destroyed_error, s1, w1) \<and>
      isProcessing s1 \<and>
      createSession (s1\<lparr>isInitialized := False\<rparr>) w1 None = Some (Return True, s2, w2)"
    by (simp add: try_block_def open_request_def new_AbortController_def
        host_promptStreaming_def host_prompt_def createSession_def host_create_def
        destroy_if_possible_def session_destroy_def
        core_ready_def session0_def host_expired_def host_ready_def destroyed_error_def
        Let_def)
  then obtain s1 w1 s2 w2 where
    tb: "try_block (core_ready\<lparr>isProcessing := True\<rparr>)
        (host_expired\<lparr>invocations :=
           invocations host_expired @ [Enter_processText ''hi'' ''ask'' []]\<rparr>)
        ''hi'' ''ask'' [] = Some (Throw destroyed_error, s1, w1)"
    and busy: "isProcessing s1"
    and cr: "createSession (s1\<lparr>isInitialized := False\<rparr>) w1 None =
        Some (Return True, s2, w2)"
    by blast
  have n: "name destroyed_error \<noteq> ''AbortError''" by (simp add: destroyed_error_def)
  have x: "session_expired destroyed_error"
    by (simp add: session_expired_def destroyed_error_def)
  from processText_retry_rejected [OF pc tb n x busy cr] show ?thesis
    by (simp add: thrown_def)
qed

text \<open>
  The whole run at that input: one stream call and one blocking call on the old
  session, one recreation, one second entry into \<open>processText\<close> with the same
  arguments, no second start notification, no completion and no error notification.
\<close>

lemma processText_retry_trace:
  "thrown (processText core_ready host_expired ''hi'' ''ask'' []) =
     Some (Error msg_already_processing) \<and>
   map_option invocations (final_host (processText core_ready host_expired ''hi'' ''ask'' [])) =
     Some [Enter_processText ''hi'' ''ask'' [], Enter_createSession,
           Enter_processText ''hi'' ''ask'' []] \<and>
   map_option calls (final_host (processText core_ready host_expired ''hi'' ''ask'' [])) =
     Some [CallPromptStreaming 0 ''hi'' 0, CallPrompt 0 ''hi'' 0, CallDestroy 0,
           CallCreate Namespaced
             \<lparr>parameters = \<lparr>temperature = 7 / 10, topK = 40\<rparr>, expectedOutputs = False,
              initialPrompts = None\<rparr>] \<and>
   map_option notifications
     (final_host (processText core_ready host_expired ''hi'' ''ask'' [])) =
     Some [StreamingUpdate [] True ''ask'' [] ''hi''] \<and>
   map_option session (final_core (processText core_ready host_expired ''hi'' ''ask'' [])) =
     Some (Some session1)"
  by (simp add: processText.simps precheck_def try_block_def open_request_def
      new_AbortController_def host_promptStreaming_def host_prompt_def createSession_def
      host_create_def destroy_if_possible_def session_destroy_def session_expired_def
      core_ready_def session0_def session1_def host_expired_def host_ready_def
      destroyed_error_def thrown_def final_host_def final_core_def finally_block_def
      Error_def Let_def)

subsection \<open>When a request is accepted\<close>

text \<open>
  C5, amended. \<open>processText\<close> passes its precondition checks exactly when a session
  handle is stored and the busy flag is clear. After \<open>destroy()\<close> no handle is stored
  and the call is rejected. A \<open>createSession()\<close> that returns has stored the session the
  host created. \<open>stopProcessing()\<close> on a request in flight clears the busy flag at
  once, so that a call is accepted from then on.
\<close>

theorem processText_acceptance:
  "(precheck s = None \<longleftrightarrow> session s \<noteq> None \<and> \<not> isProcessing s) \<and>
   precheck (fst (destroy s w)) = Some (Error msg_session_unavailable) \<and>
   (\<forall>b s' w'. createSession s w ps = Some (Return b, s', w') \<longrightarrow>
      (\<exists>h. session s' = Some h \<and> create_script w = Resolves h # create_script w')) \<and>
   (session s \<noteq> None \<and> abortController s \<noteq> None \<longrightarrow>
      precheck (fst (snd (stopProcessing s w))) = None)"
proof -
  have a: "precheck s = None \<longleftrightarrow> session s \<noteq> None \<and> \<not> isProcessing s"
    by (simp add: precheck_def)
  have b: "precheck (fst (destroy s w)) = Some (Error msg_session_unavailable)"
    by (simp add: precheck_def destroy_def)
  have c: "session s \<noteq> None \<and> abortController s \<noteq> None \<longrightarrow>
      precheck (fst (snd (stopProcessing s w))) = None"
    by (auto simp: precheck_def stopProcessing_def)
  from a b c createSession_returns [of s w ps]
  show ?thesis by blast
qed

theorem processText_acceptance_witness:
  "precheck core_ready = None \<and>
   precheck (fst (destroy core_ready host_ready)) = Some (Error msg_session_unavailable) \<and>
   map_option session (final_core (createSession constructor host_create_fails None)) =
     Some (Some session0) \<and>
   precheck (fst (snd (stopProcessing
      (core_ready\<lparr>isProcessing := True, abortController := Some 0\<rparr>) host_ready))) = None"
proof -
  have "\<exists>s' w'. createSession constructor host_create_fails None =
      Some (Return True, s', w')"
    by (simp add: createSession_def host_create_def destroy_if_possible_def
        constructor_def host_create_fails_def host_ready_def Let_def)
  then obtain s1 w1 where
    r1: "createSession constructor host_create_fails None = Some (Return True, s1, w1)"
    by blast
  have cs: "create_script host_create_fails =
      [Resolves session0, Rejects (Error ''The model is unavailable.'')]"
    by (simp add: host_create_fails_def host_ready_def)
  have ready: "session core_ready \<noteq> None \<and> \<not> isProcessing core_ready"
    by (simp add: core_ready_def)
  have flight:
    "session (core_ready\<lparr>isProcessing := True, abortController := Some 0\<rparr>) \<noteq> None \<and>
     abortController (core_ready\<lparr>isProcessing := True, abortController := Some 0\<rparr>) \<noteq> None"
    by (simp add: core_ready_def)
  from processText_acceptance [of core_ready host_ready None] ready
  have p1: "precheck core_ready = None"
    and p2: "precheck (fst (destroy core_ready host_ready)) =
      Some (Error msg_session_unavailable)"
    by blast+
  from processText_acceptance [of constructor host_create_fails None] r1 cs
  have p3: "session s1 = Some session0" by auto
  from processText_acceptance
    [of "core_ready\<lparr>isProcessing := True, abortController := Some 0\<rparr>" host_ready None]
    flight
  have p4: "precheck (fst (snd (stopProcessing
      (core_ready\<lparr>isProcessing := True, abortController := Some 0\<rparr>) host_ready))) = None"
    by blast
  from p1 p2 p3 p4 r1 show ?thesis
    by (simp add: final_core_def)
qed

text \<open>
  Two states in which a call passes the checks. First, a request in its stream loop
  after the consumer has called \<open>stopProcessing()\<close>: the loop has not ended. Second,
  the object as constructed after \<open>createSession()\<close> has returned once and thrown once:
  the stored handle is session 0, whose \<open>destroy()\<close> has been called, and the call of
  \<open>processText\<close> prompts session 0.
\<close>

theorem processText_accepted_early:
  "precheck
     (fst (consume_stream ''ask'' [] ''hi'' [Chunk ''Hel'', StopRequested]
             (fst (open_request (core_ready\<lparr>isProcessing := True\<rparr>) host_ready
                     ''hi'' ''ask'' []),
              host_ready, [], False))) = None \<and>
   map_option (precheck \<circ> fst) after_failed_recreation = Some None \<and>
   map_option (session \<circ> fst) after_failed_recreation = Some (Some session0) \<and>
   map_option (destroyed \<circ> snd) after_failed_recreation = Some [sid session0] \<and>
   map_option calls (final_host request_after_failed_recreation) =
     Some [CallCreate Namespaced
             \<lparr>parameters = \<lparr>temperature = 7 / 10, topK = 40\<rparr>, expectedOutputs = False,
              initialPrompts = None\<rparr>,
           CallDestroy 0,
           CallCreate Namespaced
             \<lparr>parameters = \<lparr>temperature = 7 / 10, topK = 40\<rparr>, expectedOutputs = False,
              initialPrompts = None\<rparr>,
           CallPromptStreaming 0 ''hi'' 0, CallPrompt 0 ''hi'' 0, CallDestroy 0,
           CallCreate Namespaced
             \<lparr>parameters = \<lparr>temperature = 7 / 10, topK = 40\<rparr>, expectedOutputs = False,
              initialPrompts = None\<rparr>]"
  by (simp add: request_after_failed_recreation_def after_failed_recreation_def
      processText.simps precheck_def try_block_def open_request_def
      new_AbortController_def host_promptStreaming_def host_prompt_def createSession_def
      host_create_def destroy_if_possible_def session_destroy_def session_expired_def
      constructor_def session0_def session1_def host_create_fails_def host_ready_def
      destroyed_error_def final_host_def finally_block_def Let_def stopProcessing_def
      core_ready_def)

section \<open>Offline cache worker: the fetch policy\<close>

lemma cache_entry_put: "cache_entry (cache_put st n k r) n k = Some r"
  by (cases "map_of st n")
    (simp_all add: cache_entry_def cache_put_def update_conv' map_add_def)

text \<open>
  C9. The fetch handler leaves a request that is not a GET alone (no \<open>respondWith\<close>, no
  step taken). It answers a navigation from the network first: on a network answer
  with that answer, which it stores as the index of its cache; on a network failure
  with the cached index. It answers every other GET from the cache first: with the
  cached response when there is one, without asking the network; otherwise from the
  network, storing the answer under the URL of the request in its cache.
\<close>

theorem fetch_listener_policy:
  "(req_method req \<noteq> ''GET'' \<longrightarrow> fetch_listener st net req = (PassThrough, st, [])) \<and>
   (req_method req = ''GET'' \<and> mode req = ''navigate'' \<longrightarrow>
      (\<forall>r. net = Resolves r \<longrightarrow>
         fetch_listener st net req =
           (RespondWith (Some r), cache_put st CACHE_NAME index_html r,
            [Fetch (url req), CachePut CACHE_NAME index_html r]) \<and>
         cache_entry (cache_put st CACHE_NAME index_html r) CACHE_NAME index_html = Some r) \<and>
      (\<forall>e. net = Rejects e \<longrightarrow>
         fetch_listener st net req =
           (RespondWith (caches_match st index_html), st,
            [Fetch (url req), CacheMatch index_html]))) \<and>
   (req_method req = ''GET'' \<and> mode req \<noteq> ''navigate'' \<longrightarrow>
      (\<forall>c. caches_match st (url req) = Some c \<longrightarrow>
         fetch_listener st net req = (RespondWith (Some c), st, [CacheMatch (url req)])) \<and>
      (caches_match st (url req) = None \<longrightarrow>
         (\<forall>r. net = Resolves r \<longrightarrow>
            fetch_listener st net req =
              (RespondWith (Some r), cache_put st CACHE_NAME (url req) r,
               [CacheMatch (url req), Fetch (url req), CachePut CACHE_NAME (url req) r]) \<and>
            cache_entry (cache_put st CACHE_NAME (url req) r) CACHE_NAME (url req) =
              Some r) \<and>
         (\<forall>e. net = Rejects e \<longrightarrow>
            fetch_listener st net req =
              (RespondWith None, st, [CacheMatch (url req), Fetch (url req)]))))"
  by (simp add: fetch_listener_def cache_entry_put)

theorem fetch_listener_policy_witness:
  "fetch_listener storage0 (Resolves ''ok'') req_post = (PassThrough, storage0, []) \<and>
   fetch_listener storage0 (Resolves ''<html>new</html>'') req_nav =
     (RespondWith (Some ''<html>new</html>''),
      [(CACHE_NAME, [(''./index.html'', ''<html>new</html>''), (''./app.js'', ''app'')])],
      [Fetch ''https://example.org/'',
       CachePut CACHE_NAME ''./index.html'' ''<html>new</html>'']) \<and>
   fetch_listener storage0 (Rejects (Error ''Failed to fetch'')) req_nav =
     (RespondWith (Some ''<html>old</html>''), storage0,
      [Fetch ''https://example.org/'', CacheMatch ''./index.html'']) \<and>
   fetch_listener storage0 (Rejects (Error ''Failed to fetch'')) req_cached =
     (RespondWith (Some ''app''), storage0, [CacheMatch ''./app.js'']) \<and>
   fetch_listener storage0 (Resolves ''css'') req_asset =
     (RespondWith (Some ''css''),
      [(CACHE_NAME,
        [(''./index.html'', ''<html>old</html>''), (''./app.js'', ''app''),
         (''./style.css'', ''css'')])],
      [CacheMatch ''./style.css'', Fetch ''./style.css'',
       CachePut CACHE_NAME ''./style.css'' ''css'']) \<and>
   fetch_listener storage0 (Rejects (Error ''Failed to fetch'')) req_asset =
     (RespondWith None, storage0, [CacheMatch ''./style.css'', Fetch ''./style.css''])"
  using fetch_listener_policy [of req_post storage0 "Resolves ''ok''"]
    fetch_listener_policy [of req_nav storage0 "Resolves ''<html>new</html>''"]
    fetch_listener_policy [of req_nav storage0 "Rejects (Error ''Failed to fetch'')"]
    fetch_listener_policy [of req_cached storage0 "Rejects (Error ''Failed to fetch'')"]
    fetch_listener_policy [of req_asset storage0 "Resolves ''css''"]
    fetch_listener_policy [of req_asset storage0 "Rejects (Error ''Failed to fetch'')"]
  by (simp add: req_post_def req_nav_def req_asset_def req_cached_def storage0_def
      cache_put_def index_html_def CACHE_NAME_def)

end
